theory Spec2Isabelle
  imports Complex_Main
begin

section \<open>StaticSystem: a gravitational system held in flat arrays\<close>

text \<open>
  The embedding follows \<^verbatim>\<open>staticsystem.py\<close>. Conventions:
  \<^item> a numpy array of floats is a list of reals (one-dimensional) or a list of rows
    (two-dimensional, all rows of one length); float arithmetic is exact arithmetic on
    the reals, so rounding and overflow are not part of the model;
  \<^item> the dictionary \<^verbatim>\<open>bodyindex\<close> is a map from names to slots;
  \<^item> an exception is a value \<open>Inl e\<close> of the result type \<open>error + 'a\<close>;
  \<^item> Python passes any object for any parameter, so the arguments of the constructor
    are values of the type \<open>pyval\<close>.
\<close>

subsection \<open>Data model\<close>

type_synonym vec = "real list"
type_synonym mat = "real list list"
type_synonym grid = "real list list list"

text \<open>
  Modelled from the spec: the class \<^verbatim>\<open>PointMass\<close> is imported from the module
  \<^verbatim>\<open>pointmass\<close>, which is not among the sources. The spec describes a body as a record
  of a name, a mass, a position vector and a velocity vector; the constructor below reads
  exactly these four attributes.
\<close>

record pointmass =
  name :: string
  mass :: real
  position :: vec
  velocity :: vec

record system =
  bodyindex :: "string \<rightharpoonup> nat"
  all_positions :: mat
  all_velocities :: mat
  all_masses :: vec

datatype error =
  AttributeError string
  | IndexError
  | ValueError
  | TypeError
  | OutsideModel

datatype pyval =
  VBool bool
  | VBody pointmass
  | VArr2 mat
  | VArr1 vec
  | VDict "string \<rightharpoonup> nat"

subsection \<open>Truth values and attribute access\<close>

text \<open>
  \<^verbatim>\<open>if x:\<close> asks for the truth value of \<open>x\<close>. For a numpy array with more than one
  element that raises ValueError; an array of one element has the truth value of the
  element; an empty array is false (with a deprecation warning in the numpy versions
  that still allow it). An object of a plain class is true.
\<close>

definition array_truth :: "real list \<Rightarrow> error + bool" where
  "array_truth elems =
     (if length elems = 0 then Inr False
      else if length elems = 1 then Inr (elems ! 0 \<noteq> 0)
      else Inl ValueError)"

fun truth :: "pyval \<Rightarrow> error + bool" where
  "truth (VBool b) = Inr b"
| "truth (VBody b) = Inr True"
| "truth (VArr2 a) = array_truth (concat a)"
| "truth (VArr1 a) = array_truth a"
| "truth (VDict d) = Inr (d \<noteq> Map.empty)"

definition no_attribute :: "string \<Rightarrow> error" where
  "no_attribute attr = AttributeError (''object has no attribute '' @ attr)"

fun get_name :: "pyval \<Rightarrow> error + string" where
  "get_name (VBody b) = Inr (name b)"
| "get_name _ = Inl (no_attribute ''name'')"

fun get_position :: "pyval \<Rightarrow> error + vec" where
  "get_position (VBody b) = Inr (position b)"
| "get_position _ = Inl (no_attribute ''position'')"

fun get_velocity :: "pyval \<Rightarrow> error + vec" where
  "get_velocity (VBody b) = Inr (velocity b)"
| "get_velocity _ = Inl (no_attribute ''velocity'')"

fun get_mass :: "pyval \<Rightarrow> error + real" where
  "get_mass (VBody b) = Inr (mass b)"
| "get_mass _ = Inl (no_attribute ''mass'')"

subsection \<open>The constructor\<close>

text \<open>
  The first loop of \<^verbatim>\<open>__init__\<close>: slot \<open>i\<close> for the \<open>i\<close>-th argument, AttributeError
  when the name is already a key.
\<close>

definition several_objects :: "string \<Rightarrow> error" where
  "several_objects n = AttributeError (''there are several objects called '' @ n)"

fun enumerate_names :: "nat \<Rightarrow> pyval list \<Rightarrow> (string \<rightharpoonup> nat) \<Rightarrow> error + (string \<rightharpoonup> nat)" where
  "enumerate_names i [] bi = Inr bi"
| "enumerate_names i (body # rest) bi =
     (case get_name body of
        Inl e \<Rightarrow> Inl e
      | Inr n \<Rightarrow>
          (if bi n \<noteq> None
           then Inl (several_objects n)
           else enumerate_names (Suc i) rest (bi(n \<mapsto> i))))"

text \<open>
  \<^verbatim>\<open>a[i] = v\<close> for a row of length \<open>d\<close>: numpy stores a vector of length \<open>d\<close> as it
  is, stretches a vector of length one over the row, and raises ValueError otherwise.
\<close>

definition assign_row :: "nat \<Rightarrow> vec \<Rightarrow> error + vec" where
  "assign_row d v =
     (if length v = d then Inr v
      else if length v = 1 then Inr (replicate d (v ! 0))
      else Inl ValueError)"

text \<open>
  The loops that fill \<^verbatim>\<open>np.zeros(shape)\<close> row by row. Every row is assigned, so no
  zero of the fresh array is left.
\<close>

fun fill_rows :: "nat \<Rightarrow> (pyval \<Rightarrow> error + vec) \<Rightarrow> pyval list \<Rightarrow> error + mat" where
  "fill_rows d attr [] = Inr []"
| "fill_rows d attr (body # rest) =
     (case attr body of
        Inl e \<Rightarrow> Inl e
      | Inr v \<Rightarrow>
          (case assign_row d v of
             Inl e \<Rightarrow> Inl e
           | Inr r \<Rightarrow>
               (case fill_rows d attr rest of
                  Inl e \<Rightarrow> Inl e
                | Inr rs \<Rightarrow> Inr (r # rs))))"

fun fill_masses :: "pyval list \<Rightarrow> error + vec" where
  "fill_masses [] = Inr []"
| "fill_masses (body # rest) =
     (case get_mass body of
        Inl e \<Rightarrow> Inl e
      | Inr m \<Rightarrow>
          (case fill_masses rest of
             Inl e \<Rightarrow> Inl e
           | Inr ms \<Rightarrow> Inr (m # ms)))"

definition init_from_bodies :: "pyval list \<Rightarrow> error + system" where
  "init_from_bodies args =
     (case enumerate_names 0 args Map.empty of
        Inl e \<Rightarrow> Inl e
      | Inr bi \<Rightarrow>
          (case args of
             [] \<Rightarrow> Inl IndexError
           | first # _ \<Rightarrow>
               (case get_position first of
                  Inl e \<Rightarrow> Inl e
                | Inr p0 \<Rightarrow>
                    (case fill_rows (length p0) get_position args of
                       Inl e \<Rightarrow> Inl e
                     | Inr ps \<Rightarrow>
                         (case fill_rows (length p0) get_velocity args of
                            Inl e \<Rightarrow> Inl e
                          | Inr vs \<Rightarrow>
                              (case fill_masses args of
                                 Inl e \<Rightarrow> Inl e
                               | Inr ms \<Rightarrow>
                                   Inr \<lparr>bodyindex = bi, all_positions = ps,
                                        all_velocities = vs, all_masses = ms\<rparr>))))))"

text \<open>
  The raw-state branch stores \<^verbatim>\<open>args[0]\<close> to \<^verbatim>\<open>args[3]\<close> unchecked; fewer than
  four arguments raise IndexError. The docstring types them as three arrays and a
  dictionary; arguments of other types are outside the model.
\<close>

fun as_arr2 :: "pyval \<Rightarrow> mat option" where
  "as_arr2 (VArr2 a) = Some a"
| "as_arr2 _ = None"

fun as_arr1 :: "pyval \<Rightarrow> vec option" where
  "as_arr1 (VArr1 a) = Some a"
| "as_arr1 _ = None"

fun as_dict :: "pyval \<Rightarrow> (string \<rightharpoonup> nat) option" where
  "as_dict (VDict d) = Some d"
| "as_dict _ = None"

definition init_raw :: "pyval list \<Rightarrow> error + system" where
  "init_raw args =
     (if length args < 4 then Inl IndexError
      else
        (case (as_arr2 (args ! 0), as_arr2 (args ! 1), as_arr1 (args ! 2), as_dict (args ! 3)) of
           (Some ps, Some vs, Some ms, Some bi) \<Rightarrow>
             Inr \<lparr>bodyindex = bi, all_positions = ps, all_velocities = vs, all_masses = ms\<rparr>
         | _ \<Rightarrow> Inl OutsideModel))"

text \<open>
  \<^verbatim>\<open>__init__(self, not_yet_initialized=True, *args)\<close>: the first positional argument
  is the flag, whatever it is; the rest is \<^verbatim>\<open>args\<close>.
\<close>

definition init :: "pyval \<Rightarrow> pyval list \<Rightarrow> error + system" where
  "init not_yet_initialized args =
     (case truth not_yet_initialized of
        Inl e \<Rightarrow> Inl e
      | Inr True \<Rightarrow> init_from_bodies args
      | Inr False \<Rightarrow> init_raw args)"

text \<open>Construction from a list of bodies: the flag is \<^verbatim>\<open>True\<close>, the bodies follow.\<close>

definition from_bodies :: "pointmass list \<Rightarrow> error + system" where
  "from_bodies bodies = init (VBool True) (map VBody bodies)"

subsection \<open>Shapes\<close>

text \<open>
  A numpy array is rectangular. The constructor from bodies builds \<open>N \<times> D\<close> positions and
  velocities and \<open>N\<close> masses, and the raw-state docstring asks for attributes
  ``already in their final shape''. The arithmetic below is modelled for such states;
  on any other shapes the model reports ValueError, as numpy does when operands cannot
  be broadcast together (numpy's stretching of an axis of length one against a longer
  one is not modelled).
\<close>

definition ncols :: "mat \<Rightarrow> nat" where
  "ncols a = (case a of [] \<Rightarrow> 0 | r # _ \<Rightarrow> length r)"

definition rect :: "nat \<Rightarrow> mat \<Rightarrow> bool" where
  "rect d a = list_all (\<lambda>r. length r = d) a"

definition well_shaped :: "system \<Rightarrow> bool" where
  "well_shaped s =
     (rect (ncols (all_positions s)) (all_positions s) \<and>
      length (all_velocities s) = length (all_positions s) \<and>
      rect (ncols (all_positions s)) (all_velocities s) \<and>
      length (all_masses s) = length (all_positions s))"

subsection \<open>Array operations used by the kernel\<close>

text \<open>\<^verbatim>\<open>a.sum(axis=0)\<close> of a list of rows of length \<open>d\<close>: the column sums.\<close>

definition sum_rows :: "nat \<Rightarrow> mat \<Rightarrow> vec" where
  "sum_rows d rows = map (\<lambda>k. sum_list (map (\<lambda>r. r ! k) rows)) [0..<d]"

text \<open>\<^verbatim>\<open>a * m[:, None]\<close>: row \<open>i\<close> of \<open>a\<close> times the \<open>i\<close>-th entry of \<open>m\<close>.\<close>

definition times_column :: "mat \<Rightarrow> vec \<Rightarrow> mat" where
  "times_column a m = map2 (\<lambda>r c. map (\<lambda>x. x * c) r) a m"

definition mat_scale :: "mat \<Rightarrow> real \<Rightarrow> mat" where
  "mat_scale a c = map (map (\<lambda>x. x * c)) a"

definition mat_add :: "mat \<Rightarrow> mat \<Rightarrow> mat" where
  "mat_add a b = map2 (map2 (+)) a b"

text \<open>
  An \<open>N \<times> N \<times> D\<close> array times, or over, an \<open>N \<times> N \<times> 1\<close> array: the single entry of the
  last axis is stretched over the \<open>D\<close> components.
\<close>

definition grid_times :: "grid \<Rightarrow> grid \<Rightarrow> grid" where
  "grid_times a b = map2 (map2 (\<lambda>v c. map (\<lambda>x. x * (c ! 0)) v)) a b"

definition grid_over :: "grid \<Rightarrow> grid \<Rightarrow> grid" where
  "grid_over a b = map2 (map2 (\<lambda>v c. map (\<lambda>x. x / (c ! 0)) v)) a b"

definition grid_cube :: "grid \<Rightarrow> grid" where
  "grid_cube a = map (map (map (\<lambda>x. x ^ 3))) a"

text \<open>\<^verbatim>\<open>a.reshape((n, n, 1))\<close> of an \<open>n \<times> n\<close> array.\<close>

definition reshape_last :: "mat \<Rightarrow> grid" where
  "reshape_last a = map (map (\<lambda>x. [x])) a"

text \<open>\<^verbatim>\<open>a[a == 0] = 1\<close>.\<close>

definition zeros_to_ones :: "grid \<Rightarrow> grid" where
  "zeros_to_ones a = map (map (map (\<lambda>x. if x = 0 then 1 else x))) a"

subsection \<open>The kernel of step\<close>

text \<open>
  \<^verbatim>\<open>np.full(gridshape, all_positions)\<close> repeats the position array along a new first
  axis, so \<open>horizontal_grid[i][j]\<close> is the position of slot \<open>j\<close>; the transposition
  of the first two axes makes \<open>vertical_grid[i][j]\<close> the position of slot \<open>i\<close>.
\<close>

definition horizontal_grid :: "mat \<Rightarrow> grid" where
  "horizontal_grid ps = replicate (length ps) ps"

definition vertical_grid :: "mat \<Rightarrow> grid" where
  "vertical_grid ps =
     map (\<lambda>i. map (\<lambda>j. horizontal_grid ps ! j ! i) [0..<length ps]) [0..<length ps]"

definition convec_map :: "mat \<Rightarrow> grid" where
  "convec_map ps = map2 (map2 (map2 (-))) (vertical_grid ps) (horizontal_grid ps)"

text \<open>\<^verbatim>\<open>np.sqrt((v ** 2).sum())\<close> of one vector, as the distance map takes it along its last axis.\<close>

definition norm_vec :: "vec \<Rightarrow> real" where
  "norm_vec v = sqrt (sum_list (map (\<lambda>x. x ^ 2) v))"

definition dist_map :: "mat \<Rightarrow> mat" where
  "dist_map ps = map (map norm_vec) (convec_map ps)"

definition dist_map_rs :: "mat \<Rightarrow> grid" where
  "dist_map_rs ps = zeros_to_ones (reshape_last (dist_map ps))"

text \<open>The single entry of \<open>dist_map_rs[i][j]\<close>, written out (lemma \<open>dist_map_rs_nth\<close>).\<close>

definition guarded_distance :: "mat \<Rightarrow> nat \<Rightarrow> nat \<Rightarrow> real" where
  "guarded_distance ps i j =
     (if norm_vec (map2 (-) (ps ! i) (ps ! j)) = 0 then 1
      else norm_vec (map2 (-) (ps ! i) (ps ! j)))"

definition mass_matrix :: "vec \<Rightarrow> grid" where
  "mass_matrix ms = reshape_last (replicate (length ms) ms)"

definition force_terms :: "mat \<Rightarrow> vec \<Rightarrow> grid" where
  "force_terms ps ms =
     grid_over (grid_times (convec_map ps) (mass_matrix ms)) (grid_cube (dist_map_rs ps))"

definition accelleration :: "mat \<Rightarrow> vec \<Rightarrow> real \<Rightarrow> mat" where
  "accelleration ps ms grav_const =
     map (\<lambda>rows. map (\<lambda>x. - grav_const * x) (sum_rows (ncols ps) rows)) (force_terms ps ms)"

subsection \<open>step\<close>

text \<open>
  The result of a call is the state of \<^verbatim>\<open>self\<close> after it and the value returned
  (\<open>None\<close> for Python's \<^verbatim>\<open>None\<close>). With \<^verbatim>\<open>inplace=False\<close> the source calls
  \<^verbatim>\<open>StaticSystem(all_positions, all_velocities, self.all_masses, self.bodyindex)\<close>: the
  new position array stands where the constructor expects its flag.
\<close>

definition step :: "system \<Rightarrow> real \<Rightarrow> real \<Rightarrow> bool \<Rightarrow> error + (system \<times> system option)" where
  "step self dt grav_const inplace =
     (if \<not> well_shaped self then Inl ValueError
      else
        (let acc = accelleration (all_positions self) (all_masses self) grav_const;
             new_positions = mat_add (all_positions self) (mat_scale (all_velocities self) dt);
             new_velocities = mat_add (all_velocities self) (mat_scale acc dt)
         in if inplace
            then Inr (self\<lparr>all_positions := new_positions, all_velocities := new_velocities\<rparr>,
                      None)
            else
              (case init (VArr2 new_positions)
                      [VArr2 new_velocities, VArr1 (all_masses self), VDict (bodyindex self)] of
                 Inl e \<Rightarrow> Inl e
               | Inr new_system \<Rightarrow> Inr (self, Some new_system))))"

subsection \<open>Centre of mass and fix\<close>

text \<open>The method \<^verbatim>\<open>fix\<close> is \<open>fix_system\<close> here: \<open>fix\<close> is a keyword of the proof language.\<close>

text \<open>
  Both divide an array by the total mass. numpy divides floats by zero silently (a
  RuntimeWarning, no exception) and yields nan or an infinity in every entry. The
  real-valued arrays of this model cannot hold such entries, so a result that holds them
  is the value \<open>NonFinite\<close>: the call returned, and its array is not a finite one.
\<close>

datatype 'a floats = Finite 'a | NonFinite

definition true_divide :: "vec \<Rightarrow> real \<Rightarrow> vec floats" where
  "true_divide v t = (if t = 0 \<and> v \<noteq> [] then NonFinite else Finite (map (\<lambda>x. x / t) v))"

definition total_mass :: "system \<Rightarrow> real" where
  "total_mass s = sum_list (all_masses s)"

definition centre_of_mass :: "system \<Rightarrow> error + vec floats" where
  "centre_of_mass self =
     (if \<not> well_shaped self then Inl ValueError
      else
        (let mx = sum_rows (ncols (all_positions self))
                    (times_column (all_positions self) (all_masses self))
         in Inr (true_divide mx (total_mass self))))"

definition total_pulse :: "system \<Rightarrow> vec" where
  "total_pulse s =
     sum_rows (ncols (all_velocities s)) (times_column (all_velocities s) (all_masses s))"

text \<open>
  \<^verbatim>\<open>all_velocities - velocity_centre_of_mass\<close> subtracts the vector from every row.
  When the quotient is not finite and there is a row to subtract from, every entry of
  the new velocity array is nan or an infinity.
\<close>

definition fix_system :: "system \<Rightarrow> error + system floats" where
  "fix_system self =
     (if \<not> well_shaped self then Inl ValueError
      else
        (case true_divide (total_pulse self) (total_mass self) of
           NonFinite \<Rightarrow> Inr NonFinite
         | Finite velocity_centre_of_mass \<Rightarrow>
             Inr (Finite (self\<lparr>all_velocities :=
                    map (\<lambda>r. map2 (-) r velocity_centre_of_mass) (all_velocities self)\<rparr>))))"

subsection \<open>get_body\<close>

text \<open>
  The source writes \<^verbatim>\<open>self.bodyindex(name)\<close>: it calls the dictionary. A \<^verbatim>\<open>dict\<close> is
  not callable, so the call raises TypeError whatever the dictionary holds.
\<close>

definition call_dict :: "(string \<rightharpoonup> nat) \<Rightarrow> string \<Rightarrow> error + nat" where
  "call_dict d arg = Inl TypeError"

definition get_body :: "system \<Rightarrow> string \<Rightarrow> error + pointmass" where
  "get_body self nm =
     (case call_dict (bodyindex self) nm of
        Inl e \<Rightarrow> Inl e
      | Inr index \<Rightarrow>
          (if index < length (all_masses self) \<and> index < length (all_positions self)
               \<and> index < length (all_velocities self)
           then Inr \<lparr>name = nm, mass = all_masses self ! index,
                     position = all_positions self ! index,
                     velocity = all_velocities self ! index\<rparr>
           else Inl IndexError))"

section \<open>Sample systems\<close>

text \<open>The two bodies of the spec's lookup round-trip, and the system built from them.\<close>

definition body_A :: pointmass where
  "body_A = \<lparr>name = ''A'', mass = 1, position = [0, 0, 0], velocity = [0, 0, 0]\<rparr>"

definition body_B :: pointmass where
  "body_B = \<lparr>name = ''B'', mass = 1, position = [1, 0, 0], velocity = [0, 0, 0]\<rparr>"

definition system_AB :: system where
  "system_AB =
     \<lparr>bodyindex = [''A'' \<mapsto> 0, ''B'' \<mapsto> 1],
      all_positions = [[0, 0, 0], [1, 0, 0]],
      all_velocities = [[0, 0, 0], [0, 0, 0]],
      all_masses = [1, 1]\<rparr>"

text \<open>Two bodies of different mass in the plane, both moving.\<close>

definition system_two :: system where
  "system_two =
     \<lparr>bodyindex = [''sun'' \<mapsto> 0, ''planet'' \<mapsto> 1],
      all_positions = [[0, 0], [1, 0]],
      all_velocities = [[1, 2], [3, 4]],
      all_masses = [2, 3]\<rparr>"

section \<open>The acceleration as the spec words it\<close>

text \<open>
  The spec's step 1 takes \<open>displacement(i,j) = position[j] - position[i]\<close>, its step 4
  takes the acceleration of \<open>i\<close> as \<open>-G\<close> times the sum over \<open>j\<close> of
  \<open>mass[j] * displacement(i,j) / distance(i,j)^3\<close>, the distance being the norm of the
  displacement with zero replaced by one. These definitions follow those words, for the
  comparison with \<open>accelleration\<close>, which follows the source.
\<close>

definition displacement :: "mat \<Rightarrow> nat \<Rightarrow> nat \<Rightarrow> vec" where
  "displacement ps i j = map2 (-) (ps ! j) (ps ! i)"

definition spec_distance :: "mat \<Rightarrow> nat \<Rightarrow> nat \<Rightarrow> real" where
  "spec_distance ps i j =
     (if norm_vec (displacement ps i j) = 0 then 1 else norm_vec (displacement ps i j))"

definition spec_acceleration :: "mat \<Rightarrow> vec \<Rightarrow> real \<Rightarrow> nat \<Rightarrow> vec" where
  "spec_acceleration ps ms g i =
     map (\<lambda>k. - g * (\<Sum>j\<leftarrow>[0..<length ps].
                  ms ! j * (displacement ps i j ! k) / spec_distance ps i j ^ 3))
       [0..<ncols ps]"

text \<open>A star and a massless probe on a line.\<close>

definition system_probe :: system where
  "system_probe =
     \<lparr>bodyindex = [''star'' \<mapsto> 0, ''probe'' \<mapsto> 1],
      all_positions = [[0], [1]],
      all_velocities = [[0], [0]],
      all_masses = [1, 0]\<rparr>"

text \<open>A single body of mass zero.\<close>

definition system_dust :: system where
  "system_dust =
     \<lparr>bodyindex = [''dust'' \<mapsto> 0],
      all_positions = [[1]],
      all_velocities = [[2]],
      all_masses = [0]\<rparr>"

text \<open>Two distinct bodies at one and the same position.\<close>

definition system_coincident :: system where
  "system_coincident =
     \<lparr>bodyindex = [''a'' \<mapsto> 0, ''b'' \<mapsto> 1],
      all_positions = [[0], [0]],
      all_velocities = [[0], [0]],
      all_masses = [1, 1]\<rparr>"

section \<open>The pair term without the guard\<close>

text \<open>
  For the comparison that C7 makes: the term of the pair \<open>(i, j)\<close> as the source's
  expression \<^verbatim>\<open>convec_map * mass_matrix / (dist_map_rs ** 3)\<close> gives it when the line
  \<^verbatim>\<open>dist_map_rs[dist_map_rs == 0] = 1\<close> is left out. A float divided by zero is nan or
  an infinity, the value \<open>NonFinite\<close>.
\<close>

definition float_divide :: "real \<Rightarrow> real \<Rightarrow> real floats" where
  "float_divide x y = (if y = 0 then NonFinite else Finite (x / y))"

definition unguarded_term :: "mat \<Rightarrow> vec \<Rightarrow> nat \<Rightarrow> nat \<Rightarrow> real floats list" where
  "unguarded_term ps ms i j =
     map (\<lambda>x. float_divide (x * (ms ! j)) (dist_map ps ! i ! j ^ 3)) (convec_map ps ! i ! j)"

section \<open>Construction\<close>

lemma from_bodies_eq: "from_bodies bodies = init_from_bodies (map VBody bodies)"
  by (simp add: from_bodies_def init_def)

lemma from_bodies_AB: "from_bodies [body_A, body_B] = Inr system_AB"
  by (simp add: from_bodies_eq init_from_bodies_def body_A_def body_B_def
      assign_row_def system_AB_def)

text \<open>
  The first loop raises as soon as a name is met a second time, or is a key of the
  dictionary it started from.
\<close>

lemma enumerate_names_clash:
  "\<not> distinct (map name bodies) \<or> (\<exists>b \<in> set bodies. bi (name b) \<noteq> None) \<Longrightarrow>
   \<exists>n. enumerate_names i (map VBody bodies) bi = Inl (several_objects n)"
proof (induction bodies arbitrary: i bi)
  case Nil
  then show ?case by simp
next
  case (Cons b bodies)
  show ?case
  proof (cases "bi (name b) = None")
    case False
    then show ?thesis by auto
  next
    case True
    have "\<not> distinct (map name bodies) \<or>
          (\<exists>c \<in> set bodies. (bi(name b \<mapsto> i)) (name c) \<noteq> None)"
      using Cons.prems True by auto
    from Cons.IH [where bi = "bi(name b \<mapsto> i)" and i = "Suc i", OF this]
    obtain n where
      "enumerate_names (Suc i) (map VBody bodies) (bi(name b \<mapsto> i)) = Inl (several_objects n)"
      by blast
    moreover have "enumerate_names i (map VBody (b # bodies)) bi =
        enumerate_names (Suc i) (map VBody bodies) (bi(name b \<mapsto> i))"
      using True by simp
    ultimately show ?thesis by metis
  qed
qed

text \<open>With distinct fresh names the loop ends, and the \<open>k\<close>-th name gets slot \<open>i + k\<close>.\<close>

lemma enumerate_names_slots:
  "distinct (map name bodies) \<Longrightarrow> \<forall>b \<in> set bodies. bi (name b) = None \<Longrightarrow>
   \<exists>bi'. enumerate_names i (map VBody bodies) bi = Inr bi' \<and>
         (\<forall>k < length bodies. bi' (name (bodies ! k)) = Some (i + k)) \<and>
         (\<forall>n. n \<notin> set (map name bodies) \<longrightarrow> bi' n = bi n)"
proof (induction bodies arbitrary: i bi)
  case Nil
  then show ?case by simp
next
  case (Cons b bodies)
  have d: "distinct (map name bodies)" and nb: "name b \<notin> set (map name bodies)"
    using Cons.prems(1) by auto
  have free: "\<forall>c \<in> set bodies. (bi(name b \<mapsto> i)) (name c) = None"
  proof
    fix c assume c: "c \<in> set bodies"
    then have "name c \<noteq> name b" using nb by (metis image_eqI set_map)
    then show "(bi(name b \<mapsto> i)) (name c) = None" using Cons.prems(2) c by simp
  qed
  from Cons.IH [where bi = "bi(name b \<mapsto> i)" and i = "Suc i", OF d free]
  obtain bi' where
    r: "enumerate_names (Suc i) (map VBody bodies) (bi(name b \<mapsto> i)) = Inr bi'" and
    s: "\<forall>k < length bodies. bi' (name (bodies ! k)) = Some (Suc i + k)" and
    o: "\<forall>n. n \<notin> set (map name bodies) \<longrightarrow> bi' n = (bi(name b \<mapsto> i)) n"
    by blast
  have here: "bi (name b) = None" using Cons.prems(2) by simp
  have e: "enumerate_names i (map VBody (b # bodies)) bi = Inr bi'"
    using r here by simp
  have slots: "\<forall>k < length (b # bodies). bi' (name ((b # bodies) ! k)) = Some (i + k)"
  proof (intro allI impI)
    fix k assume k: "k < length (b # bodies)"
    show "bi' (name ((b # bodies) ! k)) = Some (i + k)"
    proof (cases k)
      case 0
      then show ?thesis using o nb by simp
    next
      case (Suc j)
      then show ?thesis using s k by simp
    qed
  qed
  have others: "\<forall>n. n \<notin> set (map name (b # bodies)) \<longrightarrow> bi' n = bi n"
    using o by auto
  from e slots others show ?case by blast
qed

lemma fill_rows_bodies:
  "list_all (\<lambda>b. length (f b) = d) bodies \<Longrightarrow> (\<And>b. attr (VBody b) = Inr (f b)) \<Longrightarrow>
   fill_rows d attr (map VBody bodies) = Inr (map f bodies)"
  by (induction bodies) (simp_all add: assign_row_def)

lemma fill_masses_bodies: "fill_masses (map VBody bodies) = Inr (map mass bodies)"
  by (induction bodies) simp_all

text \<open>
  C10. Constructing from an empty list of bodies raises: the dimension is read from
  \<^verbatim>\<open>args[0]\<close>, which does not exist (IndexError), so no system with \<open>N = 0\<close> is built.
\<close>

theorem from_bodies_empty_raises: "from_bodies [] = Inl IndexError"
  by (simp add: from_bodies_eq init_from_bodies_def)

text \<open>
  C9, as stated, promises success for every list of distinct names. The empty list has
  no two equal names, and construction from it fails.
\<close>

theorem distinct_names_not_enough:
  "\<not> (\<forall>bodies. distinct (map name bodies) \<longrightarrow> (\<exists>s. from_bodies bodies = Inr s))"
proof
  assume "\<forall>bodies. distinct (map name bodies) \<longrightarrow> (\<exists>s. from_bodies bodies = Inr s)"
  then have "\<exists>s. from_bodies [] = Inr s" by simp
  then show False by (simp add: from_bodies_eq init_from_bodies_def)
qed

text \<open>So do distinct names on bodies whose vectors differ in length.\<close>

lemma from_bodies_mismatch_raises:
  "from_bodies [body_A, \<lparr>name = ''C'', mass = 1, position = [1, 0], velocity = [0, 0]\<rparr>]
     = Inl ValueError"
  by (simp add: from_bodies_eq init_from_bodies_def body_A_def assign_row_def)

text \<open>
  C9, amended. Two bodies of one name make the constructor raise its error
  ``there are several objects called ...'' and no system is built. If the names are
  distinct, the list is not empty and every position and velocity has the length of the
  first body's position, a system is built: the \<open>i\<close>-th body has slot \<open>i\<close>, the
  dictionary has exactly the bodies' names as keys, and the rows of the arrays are the
  bodies' vectors and masses in input order.
\<close>

theorem from_bodies_names:
  "(\<not> distinct (map name bodies) \<longrightarrow> (\<exists>n. from_bodies bodies = Inl (several_objects n))) \<and>
   (distinct (map name bodies) \<and> bodies \<noteq> [] \<and>
    list_all (\<lambda>b. length (position b) = length (position (hd bodies))) bodies \<and>
    list_all (\<lambda>b. length (velocity b) = length (position (hd bodies))) bodies \<longrightarrow>
    (\<exists>s. from_bodies bodies = Inr s \<and>
         (\<forall>i < length bodies. bodyindex s (name (bodies ! i)) = Some i) \<and>
         dom (bodyindex s) = set (map name bodies) \<and>
         all_positions s = map position bodies \<and>
         all_velocities s = map velocity bodies \<and>
         all_masses s = map mass bodies))"
proof (intro conjI impI)
  assume "\<not> distinct (map name bodies)"
  then obtain n where
    "enumerate_names 0 (map VBody bodies) Map.empty = Inl (several_objects n)"
    using enumerate_names_clash [of bodies Map.empty 0] by blast
  then have "from_bodies bodies = Inl (several_objects n)"
    by (simp add: from_bodies_eq init_from_bodies_def)
  then show "\<exists>n. from_bodies bodies = Inl (several_objects n)" ..
next
  assume h: "distinct (map name bodies) \<and> bodies \<noteq> [] \<and>
    list_all (\<lambda>b. length (position b) = length (position (hd bodies))) bodies \<and>
    list_all (\<lambda>b. length (velocity b) = length (position (hd bodies))) bodies"
  from h obtain b rest where br: "bodies = b # rest" by (cases bodies) auto
  from h obtain bi where
    e: "enumerate_names 0 (map VBody bodies) Map.empty = Inr bi" and
    slots: "\<forall>k < length bodies. bi (name (bodies ! k)) = Some (0 + k)" and
    others: "\<forall>n. n \<notin> set (map name bodies) \<longrightarrow> bi n = Map.empty n"
    using enumerate_names_slots [of bodies Map.empty 0] by auto
  have ps: "fill_rows (length (position b)) get_position (map VBody bodies)
      = Inr (map position bodies)"
    using h br by (intro fill_rows_bodies) simp_all
  have vs: "fill_rows (length (position b)) get_velocity (map VBody bodies)
      = Inr (map velocity bodies)"
    using h br by (intro fill_rows_bodies) simp_all
  let ?s = "\<lparr>bodyindex = bi, all_positions = map position bodies,
             all_velocities = map velocity bodies, all_masses = map mass bodies\<rparr>"
  have built: "from_bodies bodies = Inr ?s"
    using e ps vs fill_masses_bodies [of bodies]
    by (simp add: from_bodies_eq init_from_bodies_def br)
  have keys: "dom bi = set (map name bodies)"
  proof (rule set_eqI)
    fix n
    show "n \<in> dom bi \<longleftrightarrow> n \<in> set (map name bodies)"
    proof (cases "n \<in> set (map name bodies)")
      case True
      then obtain k where "k < length bodies" "n = name (bodies ! k)"
        by (auto simp: in_set_conv_nth)
      then show ?thesis using slots True by auto
    next
      case False
      then show ?thesis using others by auto
    qed
  qed
  show "\<exists>s. from_bodies bodies = Inr s \<and>
         (\<forall>i < length bodies. bodyindex s (name (bodies ! i)) = Some i) \<and>
         dom (bodyindex s) = set (map name bodies) \<and>
         all_positions s = map position bodies \<and>
         all_velocities s = map velocity bodies \<and>
         all_masses s = map mass bodies"
    using built slots keys by (intro exI [of _ ?s]) simp
qed

theorem from_bodies_names_witness:
  "(\<exists>n. from_bodies [body_A, body_A] = Inl (several_objects n)) \<and>
   (\<exists>s. from_bodies [body_A, body_B] = Inr s \<and>
        bodyindex s ''A'' = Some 0 \<and> bodyindex s ''B'' = Some 1 \<and>
        all_positions s = [[0, 0, 0], [1, 0, 0]])"
proof
  show "\<exists>n. from_bodies [body_A, body_A] = Inl (several_objects n)"
    using from_bodies_names [of "[body_A, body_A]"] by simp
next
  have "distinct (map name [body_A, body_B]) \<and> [body_A, body_B] \<noteq> [] \<and>
    list_all (\<lambda>b. length (position b) = length (position (hd [body_A, body_B])))
      [body_A, body_B] \<and>
    list_all (\<lambda>b. length (velocity b) = length (position (hd [body_A, body_B])))
      [body_A, body_B]"
    by (simp add: body_A_def body_B_def)
  with from_bodies_names [of "[body_A, body_B]"] obtain s where
    b: "from_bodies [body_A, body_B] = Inr s" and
    i: "\<forall>i < length [body_A, body_B]. bodyindex s (name ([body_A, body_B] ! i)) = Some i" and
    p: "all_positions s = map position [body_A, body_B]"
    by blast
  have "bodyindex s (name ([body_A, body_B] ! 0)) = Some 0"
    using i [rule_format, of 0] by simp
  moreover have "bodyindex s (name ([body_A, body_B] ! 1)) = Some 1"
    using i [rule_format, of 1] by simp
  ultimately have "bodyindex s (name ([body_A, body_B] ! 0)) = Some 0"
    and "bodyindex s (name ([body_A, body_B] ! 1)) = Some 1"
    by blast+
  then have "bodyindex s ''A'' = Some 0" and "bodyindex s ''B'' = Some 1"
    by (simp_all add: body_A_def body_B_def)
  moreover have "all_positions s = [[0, 0, 0], [1, 0, 0]]"
    using p by (simp add: body_A_def body_B_def)
  ultimately show "\<exists>s. from_bodies [body_A, body_B] = Inr s \<and>
        bodyindex s ''A'' = Some 0 \<and> bodyindex s ''B'' = Some 1 \<and>
        all_positions s = [[0, 0, 0], [1, 0, 0]]"
    using b by blast
qed

section \<open>Lookup\<close>

lemma get_body_raises: "get_body self nm = Inl TypeError"
  by (simp add: get_body_def call_dict_def)

text \<open>
  C1. The system built from the bodies A and B exists, and looking up B in it raises
  TypeError instead of returning the snapshot of B.
\<close>

theorem get_body_B_raises:
  "\<exists>s. from_bodies [body_A, body_B] = Inr s \<and> get_body s ''B'' = Inl TypeError"
  by (simp add: from_bodies_AB get_body_raises)

section \<open>step with inplace=False\<close>

lemma well_shaped_AB: "well_shaped system_AB"
  by (simp add: well_shaped_def rect_def system_AB_def ncols_def)

text \<open>
  Whatever the state and the parameters, the call with \<^verbatim>\<open>inplace=False\<close> ends in an
  exception: the constructor takes the new position array for its flag.
\<close>

lemma init_array_flag_raises:
  "\<exists>e. init (VArr2 ps) [VArr2 vs, VArr1 ms, VDict bi] = Inl e"
proof (cases "truth (VArr2 ps)")
  case (Inl e)
  then show ?thesis by (simp add: init_def)
next
  case (Inr b)
  then show ?thesis
    by (cases b) (simp_all add: init_def init_from_bodies_def init_raw_def no_attribute_def)
qed

lemma step_not_inplace_never_returns: "\<exists>e. step self dt grav_const False = Inl e"
proof (cases "well_shaped self")
  case False
  then show ?thesis by (simp add: step_def)
next
  case True
  obtain e where "init
      (VArr2 (mat_add (all_positions self) (mat_scale (all_velocities self) dt)))
      [VArr2 (mat_add (all_velocities self)
         (mat_scale (accelleration (all_positions self) (all_masses self) grav_const) dt)),
       VArr1 (all_masses self), VDict (bodyindex self)] = Inl e"
    using init_array_flag_raises by blast
  then show ?thesis using True by (simp add: step_def Let_def)
qed

text \<open>
  C5. On the system of A and B, step with \<^verbatim>\<open>inplace=False\<close> raises ValueError (the truth
  value of an array of six elements) and returns no system.
\<close>

theorem step_not_inplace_raises: "step system_AB dt grav_const False = Inl ValueError"
  by (simp add: step_def well_shaped_AB Let_def init_def array_truth_def mat_add_def
      mat_scale_def system_AB_def)

section \<open>The entries of the kernel's arrays\<close>

text \<open>
  What the array expressions of \<^verbatim>\<open>step\<close> hold at the indices \<open>i\<close>, \<open>j\<close> and \<open>k\<close>
  (slot, slot, component).
\<close>

lemma rect_nth: "rect d a \<Longrightarrow> i < length a \<Longrightarrow> length (a ! i) = d"
  by (simp add: rect_def list_all_length)

lemma horizontal_grid_nth:
  "i < length ps \<Longrightarrow> horizontal_grid ps ! i = ps"
  by (simp add: horizontal_grid_def)

lemma vertical_grid_nth:
  "i < length ps \<Longrightarrow> j < length ps \<Longrightarrow> vertical_grid ps ! i ! j = ps ! i"
  by (simp add: vertical_grid_def horizontal_grid_def)

lemma length_vertical_grid: "length (vertical_grid ps) = length ps"
  by (simp add: vertical_grid_def)

lemma length_vertical_grid_nth: "i < length ps \<Longrightarrow> length (vertical_grid ps ! i) = length ps"
  by (simp add: vertical_grid_def)

lemma length_convec_map: "length (convec_map ps) = length ps"
  by (simp add: convec_map_def vertical_grid_def horizontal_grid_def)

lemma length_convec_map_nth: "i < length ps \<Longrightarrow> length (convec_map ps ! i) = length ps"
  by (simp add: convec_map_def length_vertical_grid length_vertical_grid_nth horizontal_grid_def)

lemma convec_map_nth:
  "i < length ps \<Longrightarrow> j < length ps \<Longrightarrow> convec_map ps ! i ! j = map2 (-) (ps ! i) (ps ! j)"
  by (simp add: convec_map_def length_vertical_grid length_vertical_grid_nth
      vertical_grid_nth horizontal_grid_def)

lemma dist_map_nth:
  "i < length ps \<Longrightarrow> j < length ps \<Longrightarrow>
   dist_map ps ! i ! j = norm_vec (map2 (-) (ps ! i) (ps ! j))"
  by (simp add: dist_map_def length_convec_map length_convec_map_nth convec_map_nth)

lemma dist_map_rs_nth:
  "i < length ps \<Longrightarrow> j < length ps \<Longrightarrow>
   dist_map_rs ps ! i ! j =
     [if norm_vec (map2 (-) (ps ! i) (ps ! j)) = 0 then 1
      else norm_vec (map2 (-) (ps ! i) (ps ! j))]"
  by (simp add: dist_map_rs_def zeros_to_ones_def reshape_last_def dist_map_def
      length_convec_map length_convec_map_nth convec_map_nth)

lemma mass_matrix_nth:
  "i < length ms \<Longrightarrow> j < length ms \<Longrightarrow> mass_matrix ms ! i ! j = [ms ! j]"
  by (simp add: mass_matrix_def reshape_last_def)

lemma length_force_terms:
  "length ms = length ps \<Longrightarrow> length (force_terms ps ms) = length ps"
  by (simp add: force_terms_def grid_over_def grid_times_def grid_cube_def
      length_convec_map mass_matrix_def reshape_last_def dist_map_rs_def zeros_to_ones_def
      dist_map_def)

lemma length_force_terms_nth:
  "length ms = length ps \<Longrightarrow> i < length ps \<Longrightarrow> length (force_terms ps ms ! i) = length ps"
  by (simp add: force_terms_def grid_over_def grid_times_def grid_cube_def
      length_convec_map length_convec_map_nth mass_matrix_def reshape_last_def dist_map_rs_def
      zeros_to_ones_def dist_map_def)

lemma force_terms_nth:
  "length ms = length ps \<Longrightarrow> i < length ps \<Longrightarrow> j < length ps \<Longrightarrow>
   force_terms ps ms ! i ! j =
     map (\<lambda>x. x * (ms ! j) /
           (if norm_vec (map2 (-) (ps ! i) (ps ! j)) = 0 then 1
            else norm_vec (map2 (-) (ps ! i) (ps ! j))) ^ 3)
       (map2 (-) (ps ! i) (ps ! j))"
  by (simp add: force_terms_def grid_over_def grid_times_def grid_cube_def
      length_convec_map length_convec_map_nth convec_map_nth mass_matrix_def reshape_last_def
      dist_map_rs_def zeros_to_ones_def dist_map_def)

lemma sum_rows_nth:
  "k < d \<Longrightarrow> sum_rows d rows ! k = (\<Sum>j = 0..<length rows. rows ! j ! k)"
  by (simp add: sum_rows_def sum_list_sum_nth)

lemma length_sum_rows: "length (sum_rows d rows) = d"
  by (simp add: sum_rows_def)

lemma norm_vec_diff_commute:
  "norm_vec (map2 (-) a b) = norm_vec (map2 (-) b a)"
proof -
  have "map (\<lambda>x. x ^ 2) (map2 (-) a b) = map (\<lambda>x. x ^ 2) (map2 (-) b a)" for a b :: vec
  proof (induction a arbitrary: b)
    case Nil
    then show ?case by simp
  next
    case (Cons x a)
    then show ?case by (cases b) (simp_all add: power2_commute)
  qed
  then show ?thesis by (simp add: norm_vec_def)
qed

lemma guarded_distance_commute: "guarded_distance ps i j = guarded_distance ps j i"
  by (simp add: guarded_distance_def norm_vec_diff_commute [of "ps ! i" "ps ! j"])

lemma guarded_distance_nonzero: "guarded_distance ps i j \<noteq> 0"
  by (simp add: guarded_distance_def)

lemma norm_vec_nonneg: "0 \<le> norm_vec v"
  by (auto simp: norm_vec_def intro!: sum_list_nonneg)

lemma guarded_distance_pos: "0 < guarded_distance ps i j"
  using norm_vec_nonneg [of "map2 (-) (ps ! i) (ps ! j)"]
  by (simp add: guarded_distance_def)

lemma force_terms_entry:
  assumes "rect d ps" "length ms = length ps" "i < length ps" "j < length ps" "k < d"
  shows "force_terms ps ms ! i ! j ! k =
     (ps ! i ! k - ps ! j ! k) * (ms ! j) / guarded_distance ps i j ^ 3"
  using assms rect_nth [of d ps]
  by (simp add: force_terms_nth guarded_distance_def)

lemma length_accelleration:
  "length ms = length ps \<Longrightarrow> length (accelleration ps ms g) = length ps"
  by (simp add: accelleration_def length_force_terms)

lemma length_accelleration_nth:
  "length ms = length ps \<Longrightarrow> i < length ps \<Longrightarrow>
   length (accelleration ps ms g ! i) = ncols ps"
  by (simp add: accelleration_def length_force_terms length_sum_rows)

lemma accelleration_entry:
  assumes "rect d ps" "ncols ps = d" "length ms = length ps" "i < length ps" "k < d"
  shows "accelleration ps ms g ! i ! k =
     - g * (\<Sum>j = 0..<length ps.
              (ps ! i ! k - ps ! j ! k) * (ms ! j) / guarded_distance ps i j ^ 3)"
proof -
  have "accelleration ps ms g ! i ! k = - g * (sum_rows d (force_terms ps ms ! i) ! k)"
    using assms by (simp add: accelleration_def length_force_terms length_sum_rows)
  also have "sum_rows d (force_terms ps ms ! i) ! k =
      (\<Sum>j = 0..<length ps. force_terms ps ms ! i ! j ! k)"
    using assms by (simp add: sum_rows_nth length_force_terms_nth)
  also have "\<dots> = (\<Sum>j = 0..<length ps.
              (ps ! i ! k - ps ! j ! k) * (ms ! j) / guarded_distance ps i j ^ 3)"
    using assms by (intro sum.cong refl) (simp add: force_terms_entry)
  finally show ?thesis .
qed

section \<open>Well-shaped states\<close>

lemma well_shapedD:
  assumes "well_shaped s"
  shows "rect (ncols (all_positions s)) (all_positions s)"
    and "rect (ncols (all_positions s)) (all_velocities s)"
    and "length (all_velocities s) = length (all_positions s)"
    and "length (all_masses s) = length (all_positions s)"
  using assms by (simp_all add: well_shaped_def rect_def)

lemma ncols_nth0: "a \<noteq> [] \<Longrightarrow> ncols a = length (a ! 0)"
  by (cases a) (simp_all add: ncols_def)

lemma ncols_rect: "rect d a \<Longrightarrow> a \<noteq> [] \<Longrightarrow> ncols a = d"
  by (cases a) (simp_all add: ncols_def rect_def)

lemma well_shaped_ncols_velocities:
  assumes "well_shaped s"
  shows "ncols (all_velocities s) = ncols (all_positions s)"
proof (cases "all_positions s = []")
  case True
  then have "all_velocities s = []" using well_shapedD(3) [OF assms] by simp
  with True show ?thesis by simp
next
  case False
  then have "all_velocities s \<noteq> []" using well_shapedD(3) [OF assms] by auto
  then show ?thesis using well_shapedD(2) [OF assms] by (rule ncols_rect [rotated])
qed

lemma times_column_nth:
  "i < length a \<Longrightarrow> i < length m \<Longrightarrow> times_column a m ! i = map (\<lambda>x. x * (m ! i)) (a ! i)"
  by (simp add: times_column_def)

lemma length_times_column: "length (times_column a m) = min (length a) (length m)"
  by (simp add: times_column_def)

lemma column_sum_entry:
  assumes "rect d a" "length m = length a" "k < d"
  shows "sum_rows d (times_column a m) ! k = (\<Sum>i = 0..<length a. a ! i ! k * (m ! i))"
proof -
  have "sum_rows d (times_column a m) ! k =
      (\<Sum>i = 0..<length a. times_column a m ! i ! k)"
    using assms by (simp add: sum_rows_nth length_times_column)
  also have "\<dots> = (\<Sum>i = 0..<length a. a ! i ! k * (m ! i))"
    using assms rect_nth [of d a] by (intro sum.cong refl) (simp add: times_column_nth)
  finally show ?thesis .
qed

lemma length_mat_add: "length (mat_add a b) = min (length a) (length b)"
  by (simp add: mat_add_def)

lemma mat_add_nth:
  "i < length a \<Longrightarrow> i < length b \<Longrightarrow> mat_add a b ! i = map2 (+) (a ! i) (b ! i)"
  by (simp add: mat_add_def)

lemma length_mat_scale: "length (mat_scale a c) = length a"
  by (simp add: mat_scale_def)

lemma mat_scale_nth: "i < length a \<Longrightarrow> mat_scale a c ! i = map (\<lambda>x. x * c) (a ! i)"
  by (simp add: mat_scale_def)

lemma rect_mat_add_scale:
  assumes "rect d a" "rect d b" "length b = length a"
  shows "rect d (mat_add a (mat_scale b c))"
  using assms
  by (simp add: rect_def list_all_length length_mat_add length_mat_scale mat_add_nth
      mat_scale_nth)

lemma mat_add_scale_entry:
  assumes "rect d a" "rect d b" "length b = length a" "i < length a" "k < d"
  shows "mat_add a (mat_scale b c) ! i ! k = a ! i ! k + b ! i ! k * c"
  using assms rect_nth [of d a i] rect_nth [of d b i]
  by (simp add: mat_add_nth mat_scale_nth length_mat_scale)

section \<open>Momentum\<close>

lemma antisymmetric_double_sum:
  fixes f :: "nat \<Rightarrow> nat \<Rightarrow> real"
  assumes "\<And>i j. f j i = - f i j"
  shows "(\<Sum>i = 0..<n. \<Sum>j = 0..<n. f i j) = 0"
proof -
  have "(\<Sum>i = 0..<n. \<Sum>j = 0..<n. f i j) = (\<Sum>j = 0..<n. \<Sum>i = 0..<n. f i j)"
    by (rule sum.swap)
  also have "\<dots> = (\<Sum>j = 0..<n. \<Sum>i = 0..<n. - f j i)"
    by (intro sum.cong refl) (rule assms)
  also have "\<dots> = - (\<Sum>j = 0..<n. \<Sum>i = 0..<n. f j i)"
    by (simp add: sum_negf)
  finally show ?thesis by simp
qed

lemma neg_pair_term: "(b - a) * m * n / (c::real) = - ((a - b) * m * n / c)"
proof -
  have "(b - a) * m * n = - ((a - b) * m * n)" by (simp add: algebra_simps)
  then show ?thesis by (simp only: minus_divide_left)
qed

lemma rect_accelleration:
  assumes "length ms = length ps"
  shows "rect (ncols ps) (accelleration ps ms g)"
  using assms
  by (simp add: rect_def list_all_length length_accelleration length_accelleration_nth)

text \<open>The mass-weighted sum of the accelerations vanishes: the pair terms cancel.\<close>

lemma weighted_accelleration_sum:
  assumes "rect d ps" "ncols ps = d" "length ms = length ps" "k < d"
  shows "(\<Sum>i = 0..<length ps. accelleration ps ms g ! i ! k * (ms ! i)) = 0"
proof -
  let ?f = "\<lambda>i j. (ps ! i ! k - ps ! j ! k) * (ms ! j) * (ms ! i) / guarded_distance ps i j ^ 3"
  have "(\<Sum>i = 0..<length ps. accelleration ps ms g ! i ! k * (ms ! i)) =
      (\<Sum>i = 0..<length ps. - g * (\<Sum>j = 0..<length ps. ?f i j))"
  proof (intro sum.cong refl)
    fix i assume "i \<in> {0..<length ps}"
    then have i: "i < length ps" by simp
    have "accelleration ps ms g ! i ! k * (ms ! i) =
        - g * (\<Sum>j = 0..<length ps.
              (ps ! i ! k - ps ! j ! k) * (ms ! j) / guarded_distance ps i j ^ 3) * (ms ! i)"
      using assms i by (simp add: accelleration_entry)
    also have "\<dots> = - g * (\<Sum>j = 0..<length ps. ?f i j)"
      by (simp add: sum_distrib_right mult.assoc)
    finally show "accelleration ps ms g ! i ! k * (ms ! i) = - g * (\<Sum>j = 0..<length ps. ?f i j)" .
  qed
  also have "\<dots> = - g * (\<Sum>i = 0..<length ps. \<Sum>j = 0..<length ps. ?f i j)"
    by (simp add: sum_distrib_left)
  also have "(\<Sum>i = 0..<length ps. \<Sum>j = 0..<length ps. ?f i j) = 0"
  proof (rule antisymmetric_double_sum)
    fix i j
    have "?f j i = (ps ! j ! k - ps ! i ! k) * (ms ! j) * (ms ! i) / guarded_distance ps i j ^ 3"
      by (simp add: guarded_distance_commute [of ps j i] mult.commute mult.left_commute)
    also have "\<dots> = - ?f i j"
      by (rule neg_pair_term)
    finally show "?f j i = - ?f i j" .
  qed
  finally show ?thesis by simp
qed

lemma step_inplace:
  "well_shaped s \<Longrightarrow>
   step s dt g True =
     Inr (s\<lparr>all_positions := mat_add (all_positions s) (mat_scale (all_velocities s) dt),
            all_velocities := mat_add (all_velocities s)
              (mat_scale (accelleration (all_positions s) (all_masses s) g) dt)\<rparr>, None)"
  by (simp add: step_def Let_def)

lemma ncols_mat_add_scale:
  assumes "rect d a" "rect d b" "length b = length a"
  shows "ncols (mat_add a (mat_scale b c)) = ncols a"
proof (cases "a = []")
  case True
  then show ?thesis by (simp add: mat_add_def)
next
  case False
  then have "mat_add a (mat_scale b c) \<noteq> []"
    using assms(3) length_mat_add [of a "mat_scale b c"] by (auto simp: length_mat_scale)
  then have "ncols (mat_add a (mat_scale b c)) = d"
    using rect_mat_add_scale [OF assms] by (rule ncols_rect [rotated])
  moreover have "ncols a = d" using assms(1) False by (rule ncols_rect)
  ultimately show ?thesis by simp
qed

lemma total_pulse_after_step:
  assumes "well_shaped s"
  shows "total_pulse (s\<lparr>all_positions := ps',
            all_velocities := mat_add (all_velocities s)
              (mat_scale (accelleration (all_positions s) (all_masses s) g) dt)\<rparr>)
         = total_pulse s"
proof -
  let ?ps = "all_positions s" and ?vs = "all_velocities s" and ?ms = "all_masses s"
  let ?d = "ncols ?ps"
  let ?acc = "accelleration ?ps ?ms g"
  let ?vs' = "mat_add ?vs (mat_scale ?acc dt)"
  note ws = well_shapedD [OF assms]
  have racc: "rect ?d ?acc" using ws(4) by (rule rect_accelleration)
  have lacc: "length ?acc = length ?vs" using ws by (simp add: length_accelleration)
  have rv': "rect ?d ?vs'" using ws(2) racc lacc by (rule rect_mat_add_scale)
  have lv': "length ?vs' = length ?vs"
    using lacc by (simp add: length_mat_add length_mat_scale)
  have dv: "ncols ?vs = ?d" using assms by (rule well_shaped_ncols_velocities)
  have dv': "ncols ?vs' = ?d"
    using ncols_mat_add_scale [OF ws(2) racc lacc] dv by simp
  have "sum_rows ?d (times_column ?vs' ?ms) = sum_rows ?d (times_column ?vs ?ms)"
  proof (rule nth_equalityI)
    show "length (sum_rows ?d (times_column ?vs' ?ms)) = length (sum_rows ?d (times_column ?vs ?ms))"
      by (simp add: length_sum_rows)
  next
    fix k assume "k < length (sum_rows ?d (times_column ?vs' ?ms))"
    then have k: "k < ?d" by (simp add: length_sum_rows)
    have "sum_rows ?d (times_column ?vs' ?ms) ! k =
        (\<Sum>i = 0..<length ?vs'. ?vs' ! i ! k * (?ms ! i))"
      using rv' k ws lv' by (intro column_sum_entry) simp_all
    also have "\<dots> = (\<Sum>i = 0..<length ?vs. (?vs ! i ! k + ?acc ! i ! k * dt) * (?ms ! i))"
      unfolding lv'
    proof (intro sum.cong refl)
      fix i assume "i \<in> {0..<length ?vs}"
      then have "i < length ?vs" by simp
      then show "?vs' ! i ! k * (?ms ! i) = (?vs ! i ! k + ?acc ! i ! k * dt) * (?ms ! i)"
        using ws(2) racc lacc k by (simp add: mat_add_scale_entry)
    qed
    also have "\<dots> = (\<Sum>i = 0..<length ?vs. ?vs ! i ! k * (?ms ! i)) +
        dt * (\<Sum>i = 0..<length ?vs. ?acc ! i ! k * (?ms ! i))"
      by (simp add: algebra_simps sum.distrib sum_distrib_left)
    also have "(\<Sum>i = 0..<length ?vs. ?acc ! i ! k * (?ms ! i)) = 0"
      using weighted_accelleration_sum [OF ws(1) refl ws(4) k, of g] ws(3) by simp
    also have "(\<Sum>i = 0..<length ?vs. ?vs ! i ! k * (?ms ! i)) + dt * 0 =
        sum_rows ?d (times_column ?vs ?ms) ! k"
      using ws k by (simp add: column_sum_entry)
    finally show "sum_rows ?d (times_column ?vs' ?ms) ! k = sum_rows ?d (times_column ?vs ?ms) ! k" .
  qed
  then show ?thesis using dv dv' by (simp add: total_pulse_def)
qed

text \<open>
  C4. One step in place leaves the total momentum, the sum over the slots of mass times
  velocity (\<open>total_pulse\<close>, as \<^verbatim>\<open>fix\<close> computes it), exactly as it was, for every
  well-shaped system, every \<open>dt\<close> and every gravitational constant.
\<close>

theorem step_conserves_momentum:
  assumes "well_shaped s"
  shows "\<exists>s'. step s dt g True = Inr (s', None) \<and> total_pulse s' = total_pulse s"
  using step_inplace [OF assms] total_pulse_after_step [OF assms] by simp

lemma well_shaped_two: "well_shaped system_two"
  by (simp add: well_shaped_def rect_def system_two_def ncols_def)

lemma total_pulse_two: "total_pulse system_two = [11, 16]"
  by (simp add: total_pulse_def system_two_def sum_rows_def times_column_def ncols_def
      upt_rec numeral_2_eq_2)

theorem step_conserves_momentum_witness:
  "well_shaped system_two \<and>
   (\<exists>s'. step system_two 1 1 True = Inr (s', None) \<and> total_pulse s' = [11, 16])"
  using step_conserves_momentum [OF well_shaped_two, of 1 1] well_shaped_two total_pulse_two
  by simp

section \<open>The acceleration formula\<close>

lemma step_acc_AB:
  "accelleration (all_positions system_AB) (all_masses system_AB) 1 ! 0 = [1, 0, 0]"
  by (simp add: system_AB_def accelleration_def force_terms_def grid_over_def grid_times_def
      grid_cube_def mass_matrix_def reshape_last_def dist_map_rs_def zeros_to_ones_def
      sum_rows_def ncols_def dist_map_def norm_vec_def convec_map_def vertical_grid_def
      horizontal_grid_def upt_rec numeral_2_eq_2 numeral_3_eq_3)

lemma spec_acc_AB:
  "spec_acceleration (all_positions system_AB) (all_masses system_AB) 1 0 = [- 1, 0, 0]"
  by (simp add: system_AB_def spec_acceleration_def spec_distance_def displacement_def
      norm_vec_def ncols_def upt_rec numeral_2_eq_2 numeral_3_eq_3)

text \<open>
  C2, as stated, takes the displacement as \<open>position[j] - position[i]\<close>. The source
  subtracts the other way round (\<^verbatim>\<open>vertical_grid - horizontal_grid\<close>), so the two
  differ in sign: for A at the origin and B at \<open>[1,0,0]\<close>, with \<open>G = 1\<close>, the step
  accelerates A by \<open>[1,0,0]\<close>, towards B, where the claim's formula gives \<open>[-1,0,0]\<close>.
\<close>

theorem spec_acceleration_differs:
  "well_shaped system_AB \<and>
   accelleration (all_positions system_AB) (all_masses system_AB) 1 ! 0 = [1, 0, 0] \<and>
   spec_acceleration (all_positions system_AB) (all_masses system_AB) 1 0 = [- 1, 0, 0] \<and>
   accelleration (all_positions system_AB) (all_masses system_AB) 1 ! 0 \<noteq>
     spec_acceleration (all_positions system_AB) (all_masses system_AB) 1 0"
  using well_shaped_AB step_acc_AB spec_acc_AB by simp

text \<open>
  C2, amended. For every well-shaped system and every slot \<open>i\<close>, the acceleration that
  step computes is \<open>-G\<close> times the sum over all \<open>j\<close> (the self term included) of
  \<open>mass[j] * (position[i] - position[j]) / distance(i,j)^3\<close>, where the distance is
  the norm of the difference with zero replaced by one.
\<close>

theorem accelleration_formula:
  assumes "well_shaped s" and "i < length (all_positions s)"
  shows "accelleration (all_positions s) (all_masses s) g ! i =
     map (\<lambda>k. - g * (\<Sum>j\<leftarrow>[0..<length (all_positions s)].
                  all_masses s ! j * (all_positions s ! i ! k - all_positions s ! j ! k)
                    / guarded_distance (all_positions s) i j ^ 3))
       [0..<ncols (all_positions s)]"
proof (rule nth_equalityI)
  note ws = well_shapedD [OF assms(1)]
  show "length (accelleration (all_positions s) (all_masses s) g ! i) =
      length (map (\<lambda>k. - g * (\<Sum>j\<leftarrow>[0..<length (all_positions s)].
                  all_masses s ! j * (all_positions s ! i ! k - all_positions s ! j ! k)
                    / guarded_distance (all_positions s) i j ^ 3))
       [0..<ncols (all_positions s)])"
    using ws assms(2) by (simp add: length_accelleration_nth)
  fix k assume "k < length (accelleration (all_positions s) (all_masses s) g ! i)"
  then have k: "k < ncols (all_positions s)"
    using ws assms(2) by (simp add: length_accelleration_nth)
  show "accelleration (all_positions s) (all_masses s) g ! i ! k =
      map (\<lambda>k. - g * (\<Sum>j\<leftarrow>[0..<length (all_positions s)].
                  all_masses s ! j * (all_positions s ! i ! k - all_positions s ! j ! k)
                    / guarded_distance (all_positions s) i j ^ 3))
       [0..<ncols (all_positions s)] ! k"
    using k accelleration_entry [OF ws(1) refl ws(4) assms(2) k, of g]
    by (simp add: interv_sum_list_conv_sum_set_nat mult.commute)
qed

theorem accelleration_formula_witness:
  "well_shaped system_two \<and> 0 < length (all_positions system_two) \<and>
   accelleration (all_positions system_two) (all_masses system_two) 1 ! 0 = [3, 0]"
proof -
  have l: "0 < length (all_positions system_two)" by (simp add: system_two_def)
  have "accelleration (all_positions system_two) (all_masses system_two) 1 ! 0 = [3, 0]"
    unfolding accelleration_formula [OF well_shaped_two l]
    by (simp add: system_two_def guarded_distance_def norm_vec_def ncols_def upt_rec
        numeral_2_eq_2)
  then show ?thesis using well_shaped_two l by simp
qed

section \<open>Two bodies\<close>

lemma squares_zero_iff:
  "length a = length b \<Longrightarrow>
   sum_list (map (\<lambda>x. x ^ 2) (map2 (-) a b)) = 0 \<longleftrightarrow> a = (b :: vec)"
proof (induction a b rule: list_induct2)
  case Nil
  then show ?case by simp
next
  case (Cons x xs y ys)
  have nn: "0 \<le> sum_list (map (\<lambda>x. x ^ 2) (map2 (-) xs ys))"
    by (auto intro!: sum_list_nonneg)
  have "(x - y)\<^sup>2 + sum_list (map (\<lambda>x. x ^ 2) (map2 (-) xs ys)) = 0 \<longleftrightarrow>
      (x - y)\<^sup>2 = 0 \<and> sum_list (map (\<lambda>x. x ^ 2) (map2 (-) xs ys)) = 0"
    using nn by (intro add_nonneg_eq_0_iff) simp_all
  then show ?case using Cons.IH by simp
qed

lemma norm_vec_diff_zero_iff:
  "length a = length b \<Longrightarrow> norm_vec (map2 (-) a b) = 0 \<longleftrightarrow> a = b"
  unfolding norm_vec_def real_sqrt_eq_zero_cancel_iff by (rule squares_zero_iff)

lemma norm_vec_scale: "norm_vec (map (\<lambda>x. c * x) v) = \<bar>c\<bar> * norm_vec v"
proof -
  have "sum_list (map (\<lambda>x. x ^ 2) (map (\<lambda>x. c * x) v)) = c ^ 2 * sum_list (map (\<lambda>x. x ^ 2) v)"
    by (simp add: comp_def power_mult_distrib sum_list_const_mult)
  then show ?thesis by (simp add: norm_vec_def real_sqrt_mult)
qed

lemma two_body_entries:
  assumes len: "length p1 = length p2" and ne: "p1 \<noteq> p2" and k: "k < length p1"
  shows "accelleration [p1, p2] [m1, m2] g ! 0 ! k =
           g * m2 / norm_vec (map2 (-) p2 p1) ^ 3 * (p2 ! k - p1 ! k)"
    and "accelleration [p1, p2] [m1, m2] g ! 1 ! k =
           - (g * m1 / norm_vec (map2 (-) p2 p1) ^ 3 * (p2 ! k - p1 ! k))"
proof -
  let ?ps = "[p1, p2]" and ?ms = "[m1, m2]"
  let ?d = "norm_vec (map2 (-) p2 p1)"
  have r: "rect (length p1) ?ps" using len by (simp add: rect_def)
  have c: "ncols ?ps = length p1" by (simp add: ncols_def)
  have d0: "?d \<noteq> 0" using len ne by (simp add: norm_vec_diff_zero_iff)
  have g01: "guarded_distance ?ps 0 1 = ?d"
    using d0 by (simp add: guarded_distance_def norm_vec_diff_commute [of p1 p2])
  have g10: "guarded_distance ?ps 1 0 = ?d"
    using d0 by (simp add: guarded_distance_def)
  have two: "{0..<length ?ps} = {0, 1}" by auto
  have e0: "accelleration ?ps ?ms g ! 0 ! k =
      - g * (\<Sum>j = 0..<length ?ps.
              (?ps ! 0 ! k - ?ps ! j ! k) * (?ms ! j) / guarded_distance ?ps 0 j ^ 3)"
    using r c k by (intro accelleration_entry) simp_all
  have e1: "accelleration ?ps ?ms g ! 1 ! k =
      - g * (\<Sum>j = 0..<length ?ps.
              (?ps ! 1 ! k - ?ps ! j ! k) * (?ms ! j) / guarded_distance ?ps 1 j ^ 3)"
    using r c k by (intro accelleration_entry) simp_all
  show "accelleration ?ps ?ms g ! 0 ! k = g * m2 / ?d ^ 3 * (p2 ! k - p1 ! k)"
    unfolding e0 two using g01 d0 by (simp add: field_simps)
  show "accelleration ?ps ?ms g ! 1 ! k = - (g * m1 / ?d ^ 3 * (p2 ! k - p1 ! k))"
    unfolding e1 two using g10 d0 by (simp add: field_simps)
qed

lemma two_body_vectors:
  assumes len: "length p1 = length p2" and ne: "p1 \<noteq> p2"
  shows "accelleration [p1, p2] [m1, m2] g ! 0 =
           map (\<lambda>x. g * m2 / norm_vec (map2 (-) p2 p1) ^ 3 * x) (map2 (-) p2 p1)"
    and "accelleration [p1, p2] [m1, m2] g ! 1 =
           map (\<lambda>x. - (g * m1 / norm_vec (map2 (-) p2 p1) ^ 3 * x)) (map2 (-) p2 p1)"
proof -
  have l: "length (accelleration [p1, p2] [m1, m2] g ! i) = length p1" if "i < 2" for i
    using that length_accelleration_nth [of "[m1, m2]" "[p1, p2]" i g] by (simp add: ncols_def)
  show "accelleration [p1, p2] [m1, m2] g ! 0 =
           map (\<lambda>x. g * m2 / norm_vec (map2 (-) p2 p1) ^ 3 * x) (map2 (-) p2 p1)"
    using len l [of 0] two_body_entries(1) [OF len ne]
    by (intro nth_equalityI) simp_all
  show "accelleration [p1, p2] [m1, m2] g ! 1 =
           map (\<lambda>x. - (g * m1 / norm_vec (map2 (-) p2 p1) ^ 3 * x)) (map2 (-) p2 p1)"
    using len l [of 1] two_body_entries(2) [OF len ne]
    by (intro nth_equalityI) simp_all
qed

lemma well_shaped_probe: "well_shaped system_probe"
  by (simp add: well_shaped_def rect_def system_probe_def ncols_def)

lemma acc_probe:
  "accelleration (all_positions system_probe) (all_masses system_probe) 1 = [[0], [- 1]]"
  by (simp add: system_probe_def accelleration_def force_terms_def grid_over_def
      grid_times_def grid_cube_def mass_matrix_def reshape_last_def dist_map_rs_def
      zeros_to_ones_def sum_rows_def ncols_def dist_map_def norm_vec_def convec_map_def
      vertical_grid_def horizontal_grid_def upt_rec numeral_2_eq_2)

text \<open>
  C3, as stated, speaks of every two-body system. A body of mass zero is a system's
  member like any other (the masses are non-negative): next to a massless probe the star
  is not accelerated at all, the probe is, and so the probe's acceleration is no multiple
  of the star's, whatever the ratio.
\<close>

theorem massless_partner_not_scaled:
  "well_shaped system_probe \<and>
   accelleration (all_positions system_probe) (all_masses system_probe) 1 ! 0 = [0] \<and>
   accelleration (all_positions system_probe) (all_masses system_probe) 1 ! 1 = [- 1] \<and>
   \<not> (\<exists>c. accelleration (all_positions system_probe) (all_masses system_probe) 1 ! 1 =
          map (\<lambda>x. c * x)
            (accelleration (all_positions system_probe) (all_masses system_probe) 1 ! 0))"
  using well_shaped_probe by (simp add: acc_probe)

text \<open>
  C3, amended. In a two-body system with masses \<open>m1\<close>, \<open>m2\<close> at distinct positions
  \<open>p1\<close>, \<open>p2\<close> at distance \<open>d\<close>, step accelerates body 1 by \<open>G*m2/d^2\<close> times the
  unit vector from \<open>p1\<close> to \<open>p2\<close>; for \<open>G*m2 \<ge> 0\<close> that is a vector of magnitude
  \<open>G*m2/d^2\<close>. \<open>m2\<close> times the acceleration of body 2 is the negation of \<open>m1\<close> times
  the acceleration of body 1, and for \<open>m2 \<noteq> 0\<close> the acceleration of body 2 is the
  negation of body 1's, scaled by \<open>m1/m2\<close>.
\<close>

theorem two_body_accelleration:
  assumes "well_shaped s" and "all_positions s = [p1, p2]" and "all_masses s = [m1, m2]"
    and "p1 \<noteq> p2"
  shows "0 < norm_vec (map2 (-) p2 p1) \<and>
    norm_vec (map (\<lambda>x. x / norm_vec (map2 (-) p2 p1)) (map2 (-) p2 p1)) = 1 \<and>
    accelleration (all_positions s) (all_masses s) g ! 0 =
      map (\<lambda>x. g * m2 / norm_vec (map2 (-) p2 p1) ^ 2 * (x / norm_vec (map2 (-) p2 p1)))
        (map2 (-) p2 p1) \<and>
    (0 \<le> g * m2 \<longrightarrow>
      norm_vec (accelleration (all_positions s) (all_masses s) g ! 0) =
        g * m2 / norm_vec (map2 (-) p2 p1) ^ 2) \<and>
    map (\<lambda>x. m2 * x) (accelleration (all_positions s) (all_masses s) g ! 1) =
      map (\<lambda>x. - (m1 * x)) (accelleration (all_positions s) (all_masses s) g ! 0) \<and>
    (m2 \<noteq> 0 \<longrightarrow>
      accelleration (all_positions s) (all_masses s) g ! 1 =
        map (\<lambda>x. - (m1 / m2 * x)) (accelleration (all_positions s) (all_masses s) g ! 0))"
proof -
  let ?v = "map2 (-) p2 p1"
  let ?d = "norm_vec ?v"
  let ?a1 = "accelleration (all_positions s) (all_masses s) g ! 0"
  let ?a2 = "accelleration (all_positions s) (all_masses s) g ! 1"
  have len: "length p1 = length p2"
    using well_shapedD(1) [OF assms(1)] assms(2) by (simp add: rect_def ncols_def)
  have d0: "?d \<noteq> 0" using len assms(4) by (simp add: norm_vec_diff_zero_iff)
  then have dpos: "0 < ?d" using norm_vec_nonneg [of ?v] by simp
  have a1: "?a1 = map (\<lambda>x. g * m2 / ?d ^ 3 * x) ?v"
    and a2: "?a2 = map (\<lambda>x. - (g * m1 / ?d ^ 3 * x)) ?v"
    using two_body_vectors [OF len assms(4)] assms(2,3) by simp_all
  have unit: "norm_vec (map (\<lambda>x. x / ?d) ?v) = 1"
  proof -
    have "map (\<lambda>x. x / ?d) ?v = map (\<lambda>x. (1 / ?d) * x) ?v" by simp
    then show ?thesis using dpos by (simp only: norm_vec_scale) simp
  qed
  have dir: "?a1 = map (\<lambda>x. g * m2 / ?d ^ 2 * (x / ?d)) ?v"
    unfolding a1 by (simp add: power3_eq_cube power2_eq_square)
  have mag: "norm_vec ?a1 = g * m2 / ?d ^ 2" if "0 \<le> g * m2"
  proof -
    have "norm_vec ?a1 = \<bar>g * m2 / ?d ^ 3\<bar> * ?d" unfolding a1 by (rule norm_vec_scale)
    also have "\<dots> = g * m2 / ?d ^ 3 * ?d"
    proof -
      have "0 \<le> g * m2 / ?d ^ 3" using that dpos by simp
      then show ?thesis by (simp only: abs_of_nonneg)
    qed
    also have "\<dots> = g * m2 / ?d ^ 2" using d0 by (simp add: power3_eq_cube power2_eq_square)
    finally show ?thesis .
  qed
  have third: "map (\<lambda>x. m2 * x) ?a2 = map (\<lambda>x. - (m1 * x)) ?a1"
    unfolding a1 a2 by (simp add: algebra_simps)
  have ratio: "?a2 = map (\<lambda>x. - (m1 / m2 * x)) ?a1" if "m2 \<noteq> 0"
    unfolding a1 a2 using that by simp
  from dpos unit dir mag third ratio show ?thesis by blast
qed

theorem two_body_accelleration_witness:
  "well_shaped system_two \<and> all_positions system_two = [[0, 0], [1, 0]] \<and>
   all_masses system_two = [2, 3] \<and> [0, 0] \<noteq> [1, 0 :: real] \<and>
   norm_vec (map2 (-) [1, 0] [0, 0]) = 1 \<and>
   accelleration (all_positions system_two) (all_masses system_two) 1 ! 0 = [3, 0] \<and>
   norm_vec (accelleration (all_positions system_two) (all_masses system_two) 1 ! 0) = 3 \<and>
   accelleration (all_positions system_two) (all_masses system_two) 1 ! 1 =
     map (\<lambda>x. - (2 / 3 * x))
       (accelleration (all_positions system_two) (all_masses system_two) 1 ! 0)"
proof -
  have p: "all_positions system_two = [[0, 0], [1, 0]]"
    and m: "all_masses system_two = [2, 3]"
    by (simp_all add: system_two_def)
  have ne: "[0, 0] \<noteq> [1, 0 :: real]" by simp
  have d: "norm_vec (map2 (-) [1, 0] [0, 0]) = 1" by (simp add: norm_vec_def)
  have d': "norm_vec [1, 0] = 1" by (simp add: norm_vec_def)
  note t = two_body_accelleration [OF well_shaped_two p m ne, of 1]
  have a1: "accelleration (all_positions system_two) (all_masses system_two) 1 ! 0 = [3, 0]"
    using t by (simp add: d')
  from t have "0 \<le> (1::real) * 3 \<longrightarrow>
      norm_vec (accelleration (all_positions system_two) (all_masses system_two) 1 ! 0) =
        1 * 3 / norm_vec (map2 (-) [1, 0] [0, 0]) ^ 2"
    by blast
  then have n: "norm_vec (accelleration (all_positions system_two) (all_masses system_two) 1 ! 0) = 3"
    unfolding d by simp
  have a2: "accelleration (all_positions system_two) (all_masses system_two) 1 ! 1 =
     map (\<lambda>x. - (2 / 3 * x))
       (accelleration (all_positions system_two) (all_masses system_two) 1 ! 0)"
    using t by simp
  from well_shaped_two p m ne d a1 n a2 show ?thesis by blast
qed

section \<open>Centre of mass and fix at total mass zero\<close>

lemma well_shaped_dust: "well_shaped system_dust"
  by (simp add: well_shaped_def rect_def system_dust_def ncols_def)

lemma centre_of_mass_dust: "centre_of_mass system_dust = Inr NonFinite"
  by (simp add: centre_of_mass_def well_shaped_dust)
     (simp add: system_dust_def true_divide_def total_mass_def sum_rows_def ncols_def)

lemma fix_system_dust: "fix_system system_dust = Inr NonFinite"
  by (simp add: fix_system_def well_shaped_dust)
     (simp add: system_dust_def true_divide_def total_mass_def total_pulse_def sum_rows_def
       ncols_def)

text \<open>
  C6, as stated, has both operations fail when the total mass is zero. The source has no
  such check: on a single body of mass zero both return, with a result that is not
  finite, and \<^verbatim>\<open>fix\<close> has overwritten the velocities with it.
\<close>

theorem zero_mass_raises_nothing:
  "well_shaped system_dust \<and> total_mass system_dust = 0 \<and>
   (\<forall>e. centre_of_mass system_dust \<noteq> Inl e) \<and> (\<forall>e. fix_system system_dust \<noteq> Inl e)"
  using well_shaped_dust centre_of_mass_dust fix_system_dust
  by (simp add: total_mass_def system_dust_def)

lemma sum_rows_nonempty: "0 < d \<Longrightarrow> sum_rows d rows \<noteq> []"
  using length_sum_rows [of d rows] by auto

text \<open>
  C6, amended. On a well-shaped system neither operation raises, whatever the total
  mass. With a total mass other than zero the centre of mass is a finite vector and
  \<^verbatim>\<open>fix\<close> leaves positions, masses and the dictionary as they were. With total mass
  zero (and at least one component) both divide by zero silently: the centre of mass is
  not finite, and neither are the velocities \<^verbatim>\<open>fix\<close> has stored.
\<close>

theorem centre_and_fix_raise_nothing:
  assumes "well_shaped s"
  shows "(\<exists>r. centre_of_mass s = Inr r) \<and> (\<exists>r. fix_system s = Inr r) \<and>
    (total_mass s \<noteq> 0 \<longrightarrow>
       (\<exists>c. centre_of_mass s = Inr (Finite c)) \<and>
       (\<exists>s'. fix_system s = Inr (Finite s') \<and> all_positions s' = all_positions s \<and>
             all_masses s' = all_masses s \<and> bodyindex s' = bodyindex s)) \<and>
    (total_mass s = 0 \<and> 0 < ncols (all_positions s) \<longrightarrow>
       centre_of_mass s = Inr NonFinite \<and> fix_system s = Inr NonFinite)"
proof (intro conjI impI)
  show "\<exists>r. centre_of_mass s = Inr r"
    using assms by (simp add: centre_of_mass_def)
  show "\<exists>r. fix_system s = Inr r"
    using assms by (simp add: fix_system_def split: floats.split)
next
  assume "total_mass s \<noteq> 0"
  then show "\<exists>c. centre_of_mass s = Inr (Finite c)"
    using assms by (simp add: centre_of_mass_def true_divide_def)
next
  assume "total_mass s \<noteq> 0"
  then show "\<exists>s'. fix_system s = Inr (Finite s') \<and> all_positions s' = all_positions s \<and>
             all_masses s' = all_masses s \<and> bodyindex s' = bodyindex s"
    using assms by (simp add: fix_system_def true_divide_def)
next
  assume z: "total_mass s = 0 \<and> 0 < ncols (all_positions s)"
  then show "centre_of_mass s = Inr NonFinite"
    using assms by (simp add: centre_of_mass_def Let_def true_divide_def sum_rows_nonempty)
next
  assume z: "total_mass s = 0 \<and> 0 < ncols (all_positions s)"
  then have "total_pulse s \<noteq> []"
    using well_shaped_ncols_velocities [OF assms] by (simp add: total_pulse_def sum_rows_nonempty)
  then show "fix_system s = Inr NonFinite"
    using assms z by (simp add: fix_system_def true_divide_def)
qed

lemma total_mass_two: "total_mass system_two = 5"
  by (simp add: total_mass_def system_two_def)

theorem centre_and_fix_raise_nothing_witness:
  "well_shaped system_two \<and> total_mass system_two \<noteq> 0 \<and>
   (\<exists>c. centre_of_mass system_two = Inr (Finite c)) \<and>
   (\<exists>s'. fix_system system_two = Inr (Finite s') \<and>
         all_positions s' = all_positions system_two) \<and>
   well_shaped system_dust \<and> total_mass system_dust = 0 \<and>
   0 < ncols (all_positions system_dust) \<and>
   centre_of_mass system_dust = Inr NonFinite \<and> fix_system system_dust = Inr NonFinite"
proof -
  have m: "total_mass system_two \<noteq> 0" by (simp add: total_mass_two)
  have z: "total_mass system_dust = 0 \<and> 0 < ncols (all_positions system_dust)"
    by (simp add: total_mass_def system_dust_def ncols_def)
  from centre_and_fix_raise_nothing [OF well_shaped_two] m
  have "(\<exists>c. centre_of_mass system_two = Inr (Finite c)) \<and>
     (\<exists>s'. fix_system system_two = Inr (Finite s') \<and>
         all_positions s' = all_positions system_two)"
    by blast
  moreover from centre_and_fix_raise_nothing [OF well_shaped_dust] z
  have "centre_of_mass system_dust = Inr NonFinite \<and> fix_system system_dust = Inr NonFinite"
    by blast
  ultimately show ?thesis using well_shaped_two well_shaped_dust m z by blast
qed

section \<open>fix, called twice\<close>

lemma rect_mem: "rect d a \<Longrightarrow> r \<in> set a \<Longrightarrow> length r = d"
  by (simp add: rect_def list_all_iff)

lemma map2_minus_zeros: "length r = d \<Longrightarrow> map2 (-) r (replicate d (0::real)) = r"
  by (rule nth_equalityI) simp_all

lemma sum_rows_zero_rows:
  assumes "\<And>k. k < d \<Longrightarrow> (\<Sum>j = 0..<length rows. rows ! j ! k) = 0"
  shows "sum_rows d rows = replicate d 0"
  using assms by (intro nth_equalityI) (simp_all add: length_sum_rows sum_rows_nth)

lemma fix_system_finite:
  assumes "well_shaped s" and "total_mass s \<noteq> 0"
  shows "fix_system s =
     Inr (Finite (s\<lparr>all_velocities :=
        map (\<lambda>r. map2 (-) r (map (\<lambda>x. x / total_mass s) (total_pulse s)))
          (all_velocities s)\<rparr>))"
  using assms by (simp add: fix_system_def true_divide_def)

lemma total_pulse_after_fix:
  assumes ws: "well_shaped s" and tm: "total_mass s \<noteq> 0"
  shows "sum_rows (ncols (all_positions s))
      (times_column
        (map (\<lambda>r. map2 (-) r (map (\<lambda>x. x / total_mass s) (total_pulse s)))
          (all_velocities s))
        (all_masses s))
     = replicate (ncols (all_positions s)) 0"
proof (rule sum_rows_zero_rows)
  let ?vs = "all_velocities s" and ?ms = "all_masses s"
  let ?d = "ncols (all_positions s)"
  let ?vcm = "map (\<lambda>x. x / total_mass s) (total_pulse s)"
  let ?vs' = "map (\<lambda>r. map2 (-) r ?vcm) ?vs"
  note w = well_shapedD [OF ws]
  have dv: "ncols ?vs = ?d" using ws by (rule well_shaped_ncols_velocities)
  have lt: "length (total_pulse s) = ?d" by (simp add: total_pulse_def dv length_sum_rows)
  fix k assume k: "k < ?d"
  have len: "length (times_column ?vs' ?ms) = length ?vs"
    using w by (simp add: length_times_column)
  have tp: "total_pulse s ! k = (\<Sum>i = 0..<length ?vs. ?vs ! i ! k * (?ms ! i))"
    unfolding total_pulse_def dv using w k by (intro column_sum_entry) simp_all
  have mass: "(\<Sum>i = 0..<length ?vs. ?ms ! i) = total_mass s"
    using w by (simp add: total_mass_def sum_list_sum_nth)
  have "(\<Sum>i = 0..<length (times_column ?vs' ?ms). times_column ?vs' ?ms ! i ! k) =
      (\<Sum>i = 0..<length ?vs. (?vs ! i ! k - total_pulse s ! k / total_mass s) * (?ms ! i))"
    unfolding len
  proof (intro sum.cong refl)
    fix i assume "i \<in> {0..<length ?vs}"
    then have i: "i < length ?vs" by simp
    then have "length (?vs ! i) = ?d" using w(2) by (simp add: rect_nth)
    then show "times_column ?vs' ?ms ! i ! k =
        (?vs ! i ! k - total_pulse s ! k / total_mass s) * (?ms ! i)"
      using i w k lt by (simp add: times_column_nth)
  qed
  also have "\<dots> = (\<Sum>i = 0..<length ?vs. ?vs ! i ! k * (?ms ! i)) -
      total_pulse s ! k / total_mass s * (\<Sum>i = 0..<length ?vs. ?ms ! i)"
    by (simp add: algebra_simps sum_subtractf sum_distrib_left)
  also have "\<dots> = 0" unfolding mass tp [symmetric] using tm by simp
  finally show "(\<Sum>i = 0..<length (times_column ?vs' ?ms). times_column ?vs' ?ms ! i ! k) = 0" .
qed

text \<open>
  C8. On a well-shaped system with a total mass other than zero, \<^verbatim>\<open>fix\<close> returns a
  state whose total momentum is the zero vector, and \<^verbatim>\<open>fix\<close> on that state returns it
  unchanged: the second call yields exactly the velocities of the first.
\<close>

theorem fix_twice:
  assumes "well_shaped s" and "total_mass s \<noteq> 0"
  shows "\<exists>s'. fix_system s = Inr (Finite s') \<and> fix_system s' = Inr (Finite s') \<and>
    total_pulse s' = replicate (ncols (all_positions s)) 0"
proof -
  let ?vs = "all_velocities s"
  let ?d = "ncols (all_positions s)"
  let ?vcm = "map (\<lambda>x. x / total_mass s) (total_pulse s)"
  let ?vs' = "map (\<lambda>r. map2 (-) r ?vcm) ?vs"
  let ?s' = "s\<lparr>all_velocities := ?vs'\<rparr>"
  note w = well_shapedD [OF assms(1)]
  have dv: "ncols ?vs = ?d" using assms(1) by (rule well_shaped_ncols_velocities)
  have lt: "length ?vcm = ?d" by (simp add: total_pulse_def dv length_sum_rows)
  have rows: "rect ?d ?vs'"
    using w(2) lt by (simp add: rect_def list_all_length)
  have "all_masses s \<noteq> []" using assms(2) by (auto simp: total_mass_def)
  then have ne: "?vs' \<noteq> []" using w by auto
  have dv': "ncols ?vs' = ?d" using rows ne by (rule ncols_rect)
  have ws': "well_shaped ?s'"
    using assms(1) rows by (simp add: well_shaped_def)
  have tm': "total_mass ?s' = total_mass s" by (simp add: total_mass_def)
  have tp': "total_pulse ?s' = replicate ?d 0"
  proof -
    have "total_pulse ?s' = sum_rows (ncols ?vs') (times_column ?vs' (all_masses s))"
      unfolding total_pulse_def [of ?s'] by simp
    then show ?thesis unfolding dv' using total_pulse_after_fix [OF assms] by simp
  qed
  have same: "map (\<lambda>r. map2 (-) r (replicate ?d 0)) ?vs' = ?vs'"
  proof (rule map_idI)
    fix r assume "r \<in> set ?vs'"
    with rows have "length r = ?d" by (rule rect_mem)
    then show "map2 (-) r (replicate ?d 0) = r" by (rule map2_minus_zeros)
  qed
  have first: "fix_system s = Inr (Finite ?s')"
    using assms by (rule fix_system_finite)
  have "fix_system ?s' = Inr (Finite (?s'\<lparr>all_velocities :=
        map (\<lambda>r. map2 (-) r (map (\<lambda>x. x / total_mass ?s') (total_pulse ?s')))
          (all_velocities ?s')\<rparr>))"
    using ws' assms(2) tm' by (intro fix_system_finite) simp_all
  also have "map (\<lambda>x. x / total_mass ?s') (total_pulse ?s') = replicate ?d 0"
    unfolding tp' by simp
  also have "?s'\<lparr>all_velocities :=
        map (\<lambda>r. map2 (-) r (replicate ?d 0)) (all_velocities ?s')\<rparr> = ?s'"
    using same by simp
  finally have second: "fix_system ?s' = Inr (Finite ?s')" .
  from first second tp' show ?thesis by blast
qed

lemma fix_system_two:
  "fix_system system_two =
     Inr (Finite (system_two\<lparr>all_velocities := [[- 6 / 5, - 6 / 5], [4 / 5, 4 / 5]]\<rparr>))"
  by (simp add: fix_system_def well_shaped_two)
     (simp add: system_two_def true_divide_def total_mass_def total_pulse_def sum_rows_def
       times_column_def ncols_def upt_rec numeral_2_eq_2)

theorem fix_twice_witness:
  "well_shaped system_two \<and> total_mass system_two \<noteq> 0 \<and>
   (\<exists>s'. fix_system system_two = Inr (Finite s') \<and> fix_system s' = Inr (Finite s') \<and>
         all_velocities s' = [[- 6 / 5, - 6 / 5], [4 / 5, 4 / 5]])"
proof -
  have m: "total_mass system_two \<noteq> 0" by (simp add: total_mass_two)
  from fix_twice [OF well_shaped_two m] obtain s' where
    a: "fix_system system_two = Inr (Finite s')" and b: "fix_system s' = Inr (Finite s')"
    by blast
  from a have "all_velocities s' = [[- 6 / 5, - 6 / 5], [4 / 5, 4 / 5]]"
    unfolding fix_system_two by auto
  with a b well_shaped_two m show ?thesis by blast
qed

section \<open>The scope of the zero-distance guard\<close>

lemma well_shaped_coincident: "well_shaped system_coincident"
  by (simp add: well_shaped_def rect_def system_coincident_def ncols_def)

text \<open>
  C7, as stated, has the guard leave every pair of distinct bodies alone, coincident ones
  included. The source masks every zero of the distance map: for two distinct bodies at
  one position the distance of the pair \<open>(0, 1)\<close> is zero, the guard makes it one, and
  the term of the pair is the zero vector where the unguarded division gives no finite
  value.
\<close>

theorem guard_alters_coincident_pair:
  "well_shaped system_coincident \<and>
   dist_map (all_positions system_coincident) ! 0 ! 1 = 0 \<and>
   dist_map_rs (all_positions system_coincident) ! 0 ! 1 = [1] \<and>
   unguarded_term (all_positions system_coincident) (all_masses system_coincident) 0 1
     = [NonFinite] \<and>
   force_terms (all_positions system_coincident) (all_masses system_coincident) ! 0 ! 1
     = [0]"
  using well_shaped_coincident
  by (simp add: system_coincident_def dist_map_nth dist_map_rs_nth unguarded_term_def
      convec_map_nth force_terms_nth float_divide_def norm_vec_def)

lemma map2_minus_self: "map2 (-) a a = replicate (length a) (0::real)"
  by (rule nth_equalityI) simp_all

text \<open>
  C7, amended. The guard replaces the distance of exactly the pairs at equal positions:
  the self pairs and the pairs of distinct bodies at coincident positions. The term of
  such a pair is the zero vector. For a pair at different positions the distance is not
  zero, the guard leaves it as it is, and the term is the one the unguarded expression
  gives.
\<close>

theorem guard_scope:
  assumes "well_shaped s" and "i < length (all_positions s)" and "j < length (all_positions s)"
  shows
   "(all_positions s ! i = all_positions s ! j \<longrightarrow>
       dist_map (all_positions s) ! i ! j = 0 \<and>
       dist_map_rs (all_positions s) ! i ! j = [1] \<and>
       force_terms (all_positions s) (all_masses s) ! i ! j
         = replicate (ncols (all_positions s)) 0) \<and>
    (all_positions s ! i \<noteq> all_positions s ! j \<longrightarrow>
       dist_map (all_positions s) ! i ! j \<noteq> 0 \<and>
       dist_map_rs (all_positions s) ! i ! j = [dist_map (all_positions s) ! i ! j] \<and>
       map Finite (force_terms (all_positions s) (all_masses s) ! i ! j)
         = unguarded_term (all_positions s) (all_masses s) i j)"
proof (intro conjI impI)
  let ?ps = "all_positions s" and ?ms = "all_masses s"
  let ?v = "map2 (-) (?ps ! i) (?ps ! j)"
  note w = well_shapedD [OF assms(1)]
  have li: "length (?ps ! i) = ncols ?ps" and lj: "length (?ps ! j) = ncols ?ps"
    using w(1) assms(2,3) by (simp_all add: rect_nth)
  have zero_iff: "norm_vec ?v = 0 \<longleftrightarrow> ?ps ! i = ?ps ! j"
    using li lj by (simp add: norm_vec_diff_zero_iff)
  {
    assume eq: "?ps ! i = ?ps ! j"
    then have n: "norm_vec ?v = 0" using zero_iff by simp
    show "dist_map ?ps ! i ! j = 0"
      using assms(2,3) n by (simp add: dist_map_nth)
    show "dist_map_rs ?ps ! i ! j = [1]"
      using assms(2,3) n by (simp add: dist_map_rs_nth)
    have "?v = replicate (ncols ?ps) 0"
      using eq lj map2_minus_self [of "?ps ! j"] by simp
    then show "force_terms ?ps ?ms ! i ! j = replicate (ncols ?ps) 0"
      using assms(2,3) w(4) by (simp add: force_terms_nth)
  }
  {
    assume "?ps ! i \<noteq> ?ps ! j"
    then have n: "norm_vec ?v \<noteq> 0" using zero_iff by simp
    show "dist_map ?ps ! i ! j \<noteq> 0"
      using assms(2,3) n by (simp add: dist_map_nth)
    show "dist_map_rs ?ps ! i ! j = [dist_map ?ps ! i ! j]"
      using assms(2,3) n by (simp add: dist_map_rs_nth dist_map_nth)
    show "map Finite (force_terms ?ps ?ms ! i ! j) = unguarded_term ?ps ?ms i j"
      using assms(2,3) w(4) n
      by (simp add: force_terms_nth unguarded_term_def dist_map_nth convec_map_nth
          float_divide_def)
  }
qed

theorem guard_scope_witness:
  "well_shaped system_coincident \<and>
   all_positions system_coincident ! 0 = all_positions system_coincident ! 1 \<and>
   dist_map_rs (all_positions system_coincident) ! 0 ! 1 = [1] \<and>
   force_terms (all_positions system_coincident) (all_masses system_coincident) ! 0 ! 1
     = [0] \<and>
   well_shaped system_AB \<and>
   all_positions system_AB ! 0 \<noteq> all_positions system_AB ! 1 \<and>
   dist_map_rs (all_positions system_AB) ! 0 ! 1 = [dist_map (all_positions system_AB) ! 0 ! 1] \<and>
   map Finite (force_terms (all_positions system_AB) (all_masses system_AB) ! 0 ! 1)
     = unguarded_term (all_positions system_AB) (all_masses system_AB) 0 1"
proof -
  have c0: "0 < length (all_positions system_coincident)"
    and c1: "1 < length (all_positions system_coincident)"
    and ceq: "all_positions system_coincident ! 0 = all_positions system_coincident ! 1"
    and cd: "ncols (all_positions system_coincident) = 1"
    by (simp_all add: system_coincident_def ncols_def)
  have a0: "0 < length (all_positions system_AB)"
    and a1: "1 < length (all_positions system_AB)"
    and ane: "all_positions system_AB ! 0 \<noteq> all_positions system_AB ! 1"
    by (simp_all add: system_AB_def)
  from guard_scope [OF well_shaped_coincident c0 c1] ceq
  have "dist_map_rs (all_positions system_coincident) ! 0 ! 1 = [1] \<and>
     force_terms (all_positions system_coincident) (all_masses system_coincident) ! 0 ! 1
       = replicate (ncols (all_positions system_coincident)) 0"
    by blast
  then have first: "dist_map_rs (all_positions system_coincident) ! 0 ! 1 = [1] \<and>
     force_terms (all_positions system_coincident) (all_masses system_coincident) ! 0 ! 1 = [0]"
    unfolding cd by simp
  from guard_scope [OF well_shaped_AB a0 a1] ane
  have second: "dist_map_rs (all_positions system_AB) ! 0 ! 1
       = [dist_map (all_positions system_AB) ! 0 ! 1] \<and>
     map Finite (force_terms (all_positions system_AB) (all_masses system_AB) ! 0 ! 1)
       = unguarded_term (all_positions system_AB) (all_masses system_AB) 0 1"
    by blast
  from well_shaped_coincident ceq first well_shaped_AB ane second show ?thesis by blast
qed

end
